theory Spec2Isabelle
  imports Complex_Main
begin

section \<open>Branch-penalty throughput calculator: the computation core\<close>

text \<open>
  The Python program computes cycles per instruction and throughput of a pipeline with
  and without branch prediction, sweeps the inputs over ranges and fills a plot and a
  table. Python's \<^verbatim>\<open>float\<close> values are idealised as the reals, so every
  arithmetic operation is exact; the two operations of Python that fail on numbers here,
  division by zero and indexing an empty list, are results \<open>Inl\<close> of the model.
  The numbers that the program reads from its widgets with \<^verbatim>\<open>float(var.get())\<close>
  and \<^verbatim>\<open>slider.get()\<close> are the fields of the record \<open>gui\<close>: the model
  starts where the text of a variable has been read as a number. Drawing the figure and
  filling the table widget are left out; an update function returns what it hands to them,
  the list of plotted lines or the list of table rows.
\<close>

subsection \<open>Python primitives\<close>

datatype py_error = ZeroDivisionError | IndexError

text \<open>\<^verbatim>\<open>int(x)\<close> on a float truncates towards zero.\<close>

definition py_int :: "real \<Rightarrow> int" where
  "py_int x = (if 0 \<le> x then \<lfloor>x\<rfloor> else \<lceil>x\<rceil>)"

text \<open>
  \<^verbatim>\<open>round(x, ndigits)\<close>: the nearest multiple of \<open>10 ^ -ndigits\<close>, a tie going
  to the even multiple.
\<close>

definition py_round :: "real \<Rightarrow> nat \<Rightarrow> real" where
  "py_round x ndigits =
     (let s = x * 10 ^ ndigits;
          f = \<lfloor>s\<rfloor>;
          d = s - of_int f
      in of_int (if d < 1 / 2 then f
                 else if 1 / 2 < d then f + 1
                 else if even f then f else f + 1) / 10 ^ ndigits)"

subsection \<open>The performance model\<close>

definition calculate_no_prediction :: "real \<Rightarrow> real \<Rightarrow> real \<Rightarrow> py_error + real \<times> real" where
  "calculate_no_prediction Pb Pt b =
     (let cpi = 1 + Pb * Pt * b
      in if cpi = 0 then Inl ZeroDivisionError
         else let throughput = 1 / cpi in Inr (cpi, throughput))"

definition calculate_with_prediction ::
  "real \<Rightarrow> real \<Rightarrow> real \<Rightarrow> real \<Rightarrow> real \<Rightarrow> py_error + real \<times> real" where
  "calculate_with_prediction Pb Pt b Pc c =
     (let cpi = 1 + Pb * ((1 - Pc) * Pt * b + Pc * Pt * c)
      in if cpi = 0 then Inl ZeroDivisionError
         else let throughput = 1 / cpi in Inr (cpi, throughput))"

subsection \<open>The swept axes\<close>

text \<open>
  The list of \<open>Pb\<close> values of \<^verbatim>\<open>update_graph_part_a\<close> and
  \<^verbatim>\<open>update_table_part_a\<close>: the comprehension over \<^verbatim>\<open>range(int(...) + 1)\<close>,
  which is empty when the bound is not positive, then \<^verbatim>\<open>Pb_values[-1]\<close>, which
  raises on the empty list.
\<close>

definition Pb_values :: "real \<Rightarrow> real \<Rightarrow> real \<Rightarrow> py_error + real list" where
  "Pb_values Pb_min Pb_max pb_res =
     (if pb_res = 0 then Inl ZeroDivisionError
      else let vs = map (\<lambda>i. py_round (Pb_min + pb_res * of_nat i) 10)
                      [0 ..< nat (py_int ((Pb_max - Pb_min) / pb_res) + 1)]
           in if vs = [] then Inl IndexError
              else if last vs < Pb_max then Inr (vs @ [Pb_max])
              else Inr vs)"

definition Pt_values :: "real \<Rightarrow> real \<Rightarrow> real \<Rightarrow> py_error + real list" where
  "Pt_values Pt_min Pt_max pt_res =
     (if pt_res = 0 then Inl ZeroDivisionError
      else let vs = map (\<lambda>i. py_round (Pt_min + pt_res * of_nat i) 10)
                      [0 ..< nat (py_int ((Pt_max - Pt_min) / pt_res) + 1)]
           in if vs = [] then Inl IndexError
              else if last vs < Pt_max then Inr (vs @ [Pt_max])
              else Inr vs)"

text \<open>The list of \<open>Pc\<close> values of part B: no rounding and no test of the last value.\<close>

definition Pc_values :: "real \<Rightarrow> real \<Rightarrow> real \<Rightarrow> py_error + real list" where
  "Pc_values Pc_min Pc_max pc_res =
     (if pc_res = 0 then Inl ZeroDivisionError
      else Inr (map (\<lambda>i. Pc_min + pc_res * of_nat i)
                  [0 ..< nat (py_int ((Pc_max - Pc_min) / pc_res) + 1)]))"

subsection \<open>The widget state\<close>

text \<open>
  The values the four update functions read: the range variables after
  \<^verbatim>\<open>float(...)\<close>, the sliders, and the two variables that select the plotted
  quantity.
\<close>

record gui =
  pb_min_var :: real
  pb_max_var :: real
  pb_res_var :: real
  pt_min_var :: real
  pt_max_var :: real
  pt_res_var :: real
  pt_slider_a :: real
  b_slider_a :: real
  y_axis_var_a :: string
  pc_min_var :: real
  pc_max_var :: real
  pc_res_var :: real
  c_slider_b :: real
  y_axis_var_b :: string

subsection \<open>Part A: the table without prediction\<close>

text \<open>
  The dictionary \<^verbatim>\<open>data_no_pred\<close> holds five lists that grow together, one
  value each per iteration; the model keeps the five values of an iteration as one row,
  the row the data frame shows.
\<close>

record row_a =
  a_Pb :: real
  a_Pt :: real
  a_b :: real
  a_CPI :: real
  a_Throughput :: real

text \<open>
  \<open>Pt_values\<close> and \<open>b_values\<close> as both functions of part A choose them
  (the \<^verbatim>\<open>if all_data\<close> of lines 70-80 and 115-125).
\<close>

definition Pt_b_values_a :: "gui \<Rightarrow> bool \<Rightarrow> py_error + real list \<times> real list" where
  "Pt_b_values_a g all_data =
     (if all_data then
        (case Pt_values (pt_min_var g) (pt_max_var g) (pt_res_var g) of
           Inl e \<Rightarrow> Inl e
         | Inr Pts \<Rightarrow> Inr (Pts, [3, 4]))
      else Inr ([pt_slider_a g], [b_slider_a g]))"

fun table_a_Pb_loop :: "real \<Rightarrow> real \<Rightarrow> real list \<Rightarrow> row_a list \<Rightarrow> py_error + row_a list" where
  "table_a_Pb_loop b Pt [] data_no_pred = Inr data_no_pred"
| "table_a_Pb_loop b Pt (Pb # Pbs) data_no_pred =
     (case calculate_no_prediction Pb Pt b of
        Inl e \<Rightarrow> Inl e
      | Inr (cpi, throughput) \<Rightarrow>
          table_a_Pb_loop b Pt Pbs
            (data_no_pred @
              [\<lparr>a_Pb = Pb, a_Pt = py_round Pt 3, a_b = b,
                a_CPI = py_round cpi 3, a_Throughput = py_round throughput 3\<rparr>]))"

fun table_a_Pt_loop :: "real \<Rightarrow> real list \<Rightarrow> real list \<Rightarrow> row_a list \<Rightarrow> py_error + row_a list" where
  "table_a_Pt_loop b [] Pbs data_no_pred = Inr data_no_pred"
| "table_a_Pt_loop b (Pt # Pts) Pbs data_no_pred =
     (case table_a_Pb_loop b Pt Pbs data_no_pred of
        Inl e \<Rightarrow> Inl e
      | Inr data' \<Rightarrow> table_a_Pt_loop b Pts Pbs data')"

fun table_a_b_loop :: "real list \<Rightarrow> real list \<Rightarrow> real list \<Rightarrow> row_a list \<Rightarrow> py_error + row_a list" where
  "table_a_b_loop [] Pts Pbs data_no_pred = Inr data_no_pred"
| "table_a_b_loop (b # bs) Pts Pbs data_no_pred =
     (case table_a_Pt_loop b Pts Pbs data_no_pred of
        Inl e \<Rightarrow> Inl e
      | Inr data' \<Rightarrow> table_a_b_loop bs Pts Pbs data')"

definition update_table_part_a :: "gui \<Rightarrow> bool \<Rightarrow> py_error + row_a list" where
  "update_table_part_a g all_data =
     (case Pb_values (pb_min_var g) (pb_max_var g) (pb_res_var g) of
        Inl e \<Rightarrow> Inl e
      | Inr Pbs \<Rightarrow>
          (case Pt_b_values_a g all_data of
             Inl e \<Rightarrow> Inl e
           | Inr (Pts, bs) \<Rightarrow> table_a_b_loop bs Pts Pbs []))"

subsection \<open>Part A: the plot without prediction\<close>

text \<open>
  One \<^verbatim>\<open>ax.plot(Pb_values, y_values, label=..., linestyle=...)\<close> call is one
  \<open>line_a\<close>; the label is kept as the two numbers it is formatted from.
\<close>

record line_a =
  la_xs :: "real list"
  la_ys :: "real list"
  la_Pt :: real
  la_b :: real
  la_linestyle :: string

fun values_a :: "real \<Rightarrow> real \<Rightarrow> real list \<Rightarrow> py_error + (real \<times> real) list" where
  "values_a Pt b [] = Inr []"
| "values_a Pt b (Pb # Pbs) =
     (case calculate_no_prediction Pb Pt b of
        Inl e \<Rightarrow> Inl e
      | Inr val \<Rightarrow>
          (case values_a Pt b Pbs of
             Inl e \<Rightarrow> Inl e
           | Inr vals \<Rightarrow> Inr (val # vals)))"

definition y_values :: "string \<Rightarrow> (real \<times> real) list \<Rightarrow> real list" where
  "y_values y_axis vals = map (\<lambda>val. if y_axis = ''CPI'' then fst val else snd val) vals"

fun graph_a_Pt_loop :: "string \<Rightarrow> real \<Rightarrow> real list \<Rightarrow> real list \<Rightarrow> line_a list \<Rightarrow> py_error + line_a list" where
  "graph_a_Pt_loop y_axis b [] Pbs ax = Inr ax"
| "graph_a_Pt_loop y_axis b (Pt # Pts) Pbs ax =
     (case values_a Pt b Pbs of
        Inl e \<Rightarrow> Inl e
      | Inr vals \<Rightarrow>
          graph_a_Pt_loop y_axis b Pts Pbs
            (ax @ [\<lparr>la_xs = Pbs, la_ys = y_values y_axis vals, la_Pt = Pt, la_b = b,
                     la_linestyle = (if b = 3 then ''-'' else ''--'')\<rparr>]))"

fun graph_a_b_loop :: "string \<Rightarrow> real list \<Rightarrow> real list \<Rightarrow> real list \<Rightarrow> line_a list \<Rightarrow> py_error + line_a list" where
  "graph_a_b_loop y_axis [] Pts Pbs ax = Inr ax"
| "graph_a_b_loop y_axis (b # bs) Pts Pbs ax =
     (case graph_a_Pt_loop y_axis b Pts Pbs ax of
        Inl e \<Rightarrow> Inl e
      | Inr ax' \<Rightarrow> graph_a_b_loop y_axis bs Pts Pbs ax')"

definition update_graph_part_a :: "gui \<Rightarrow> bool \<Rightarrow> py_error + line_a list" where
  "update_graph_part_a g all_data =
     (case Pb_values (pb_min_var g) (pb_max_var g) (pb_res_var g) of
        Inl e \<Rightarrow> Inl e
      | Inr Pbs \<Rightarrow>
          (case Pt_b_values_a g all_data of
             Inl e \<Rightarrow> Inl e
           | Inr (Pts, bs) \<Rightarrow> graph_a_b_loop (y_axis_var_a g) bs Pts Pbs []))"

subsection \<open>Part B: the table and the plot with prediction\<close>

record row_b =
  b_Pc :: real
  b_Pt :: real
  b_b :: real
  b_c :: real
  b_CPI :: real
  b_Throughput :: real

definition c_values :: "gui \<Rightarrow> bool \<Rightarrow> real list" where
  "c_values g all_data = (if all_data then [0, 1, 2] else [c_slider_b g])"

fun table_b_Pc_loop :: "real \<Rightarrow> real list \<Rightarrow> row_b list \<Rightarrow> py_error + row_b list" where
  "table_b_Pc_loop c [] data_pred = Inr data_pred"
| "table_b_Pc_loop c (Pc # Pcs) data_pred =
     (case calculate_with_prediction (25 / 100) (6 / 10) 4 Pc c of
        Inl e \<Rightarrow> Inl e
      | Inr (cpi, throughput) \<Rightarrow>
          table_b_Pc_loop c Pcs
            (data_pred @
              [\<lparr>b_Pc = Pc, b_Pt = 6 / 10, b_b = 4, b_c = c,
                b_CPI = py_round cpi 3, b_Throughput = py_round throughput 3\<rparr>]))"

fun table_b_c_loop :: "real list \<Rightarrow> real list \<Rightarrow> row_b list \<Rightarrow> py_error + row_b list" where
  "table_b_c_loop [] Pcs data_pred = Inr data_pred"
| "table_b_c_loop (c # cs) Pcs data_pred =
     (case table_b_Pc_loop c Pcs data_pred of
        Inl e \<Rightarrow> Inl e
      | Inr data' \<Rightarrow> table_b_c_loop cs Pcs data')"

definition update_table_part_b :: "gui \<Rightarrow> bool \<Rightarrow> py_error + row_b list" where
  "update_table_part_b g all_data =
     (case Pc_values (pc_min_var g) (pc_max_var g) (pc_res_var g) of
        Inl e \<Rightarrow> Inl e
      | Inr Pcs \<Rightarrow> table_b_c_loop (c_values g all_data) Pcs [])"

record line_b =
  lb_xs :: "real list"
  lb_ys :: "real list"
  lb_c :: real

fun values_b :: "real \<Rightarrow> real list \<Rightarrow> py_error + (real \<times> real) list" where
  "values_b c [] = Inr []"
| "values_b c (Pc # Pcs) =
     (case calculate_with_prediction (25 / 100) (6 / 10) 4 Pc c of
        Inl e \<Rightarrow> Inl e
      | Inr val \<Rightarrow>
          (case values_b c Pcs of
             Inl e \<Rightarrow> Inl e
           | Inr vals \<Rightarrow> Inr (val # vals)))"

fun graph_b_c_loop :: "string \<Rightarrow> real list \<Rightarrow> real list \<Rightarrow> line_b list \<Rightarrow> py_error + line_b list" where
  "graph_b_c_loop y_axis [] Pcs ax = Inr ax"
| "graph_b_c_loop y_axis (c # cs) Pcs ax =
     (case values_b c Pcs of
        Inl e \<Rightarrow> Inl e
      | Inr vals \<Rightarrow>
          graph_b_c_loop y_axis cs Pcs
            (ax @ [\<lparr>lb_xs = Pcs, lb_ys = y_values y_axis vals, lb_c = c\<rparr>]))"

definition update_graph_part_b :: "gui \<Rightarrow> bool \<Rightarrow> py_error + line_b list" where
  "update_graph_part_b g all_data =
     (case Pc_values (pc_min_var g) (pc_max_var g) (pc_res_var g) of
        Inl e \<Rightarrow> Inl e
      | Inr Pcs \<Rightarrow> graph_b_c_loop (y_axis_var_b g) (c_values g all_data) Pcs [])"

subsection \<open>The widgets as the program creates them\<close>

text \<open>
  The initial values of the variables and sliders (lines 235-324 of the source): the
  state in which the first "calculate" runs.
\<close>

definition initial_gui :: gui where
  "initial_gui =
     \<lparr>pb_min_var = 2 / 10, pb_max_var = 3 / 10, pb_res_var = 1 / 100,
      pt_min_var = 5 / 10, pt_max_var = 7 / 10, pt_res_var = 1 / 10,
      pt_slider_a = 6 / 10, b_slider_a = 3, y_axis_var_a = ''Throughput'',
      pc_min_var = 4 / 10, pc_max_var = 8 / 10, pc_res_var = 1 / 10,
      c_slider_b = 1, y_axis_var_b = ''Throughput''\<rparr>"

subsection \<open>The rows in closed form\<close>

text \<open>
  The row that one iteration of the innermost table loop appends when the model function
  returns, as a function of the loop variables. The loops are compared with these below.
\<close>

definition row_a_of :: "real \<Rightarrow> real \<Rightarrow> real \<Rightarrow> row_a" where
  "row_a_of b Pt Pb =
     \<lparr>a_Pb = Pb, a_Pt = py_round Pt 3, a_b = b,
      a_CPI = py_round (1 + Pb * Pt * b) 3,
      a_Throughput = py_round (1 / (1 + Pb * Pt * b)) 3\<rparr>"

definition cpi_b :: "real \<Rightarrow> real \<Rightarrow> real" where
  "cpi_b c Pc = 1 + (25 / 100) * ((1 - Pc) * (6 / 10) * 4 + Pc * (6 / 10) * c)"

definition row_b_of :: "real \<Rightarrow> real \<Rightarrow> row_b" where
  "row_b_of c Pc =
     \<lparr>b_Pc = Pc, b_Pt = 6 / 10, b_b = 4, b_c = c,
      b_CPI = py_round (cpi_b c Pc) 3,
      b_Throughput = py_round (1 / cpi_b c Pc) 3\<rparr>"

section \<open>The performance model: formulas and failure\<close>

text \<open>The closed forms of the two values, used to state the results.\<close>

lemma calculate_no_prediction_Inr:
  "1 + Pb * Pt * b \<noteq> 0 \<Longrightarrow>
     calculate_no_prediction Pb Pt b = Inr (1 + Pb * Pt * b, 1 / (1 + Pb * Pt * b))"
  by (simp add: calculate_no_prediction_def Let_def)

lemma calculate_no_prediction_Inl:
  "1 + Pb * Pt * b = 0 \<Longrightarrow> calculate_no_prediction Pb Pt b = Inl ZeroDivisionError"
  by (simp add: calculate_no_prediction_def Let_def)

lemma calculate_with_prediction_Inr:
  "1 + Pb * ((1 - Pc) * Pt * b + Pc * Pt * c) \<noteq> 0 \<Longrightarrow>
     calculate_with_prediction Pb Pt b Pc c =
       Inr (1 + Pb * ((1 - Pc) * Pt * b + Pc * Pt * c),
            1 / (1 + Pb * ((1 - Pc) * Pt * b + Pc * Pt * c)))"
  by (simp add: calculate_with_prediction_def Let_def)

lemma calculate_with_prediction_Inl:
  "1 + Pb * ((1 - Pc) * Pt * b + Pc * Pt * c) = 0 \<Longrightarrow>
     calculate_with_prediction Pb Pt b Pc c = Inl ZeroDivisionError"
  by (simp add: calculate_with_prediction_def Let_def)

lemma cpi_with_prediction_ge_1:
  fixes Pb Pt b Pc c :: real
  assumes "0 \<le> Pb" "0 \<le> Pt" "0 \<le> c" "c \<le> b" "Pc \<le> 1"
  shows "1 \<le> 1 + Pb * ((1 - Pc) * Pt * b + Pc * Pt * c)"
proof -
  have e: "(1 - Pc) * Pt * b + Pc * Pt * c = Pt * (c + (1 - Pc) * (b - c))"
    by (simp add: algebra_simps)
  have "0 \<le> (1 - Pc) * (b - c)" using assms by simp
  then have "0 \<le> Pt * (c + (1 - Pc) * (b - c))" using assms by simp
  then have "0 \<le> Pb * ((1 - Pc) * Pt * b + Pc * Pt * c)" using assms e by simp
  then show ?thesis by simp
qed

lemma cpi_with_prediction_ge_1_domain:
  fixes Pb Pt b Pc c :: real
  assumes "0 \<le> Pb" "0 \<le> Pt" "0 \<le> c" "0 \<le> b" "0 \<le> Pc" "Pc \<le> 1"
  shows "1 \<le> 1 + Pb * ((1 - Pc) * Pt * b + Pc * Pt * c)"
proof -
  have "0 \<le> (1 - Pc) * Pt * b" using assms by simp
  moreover have "0 \<le> Pc * Pt * c" using assms by simp
  ultimately have "0 \<le> Pb * ((1 - Pc) * Pt * b + Pc * Pt * c)" using assms by simp
  then show ?thesis by simp
qed

lemma cpi_with_prediction_antimono:
  fixes Pb Pt b Pc Pc' c :: real
  assumes "0 \<le> Pb" "0 \<le> Pt" "c \<le> b" "Pc \<le> Pc'"
  shows "1 + Pb * ((1 - Pc') * Pt * b + Pc' * Pt * c)
           \<le> 1 + Pb * ((1 - Pc) * Pt * b + Pc * Pt * c)"
proof -
  have "((1 - Pc) * Pt * b + Pc * Pt * c) - ((1 - Pc') * Pt * b + Pc' * Pt * c)
          = Pt * ((Pc' - Pc) * (b - c))"
    by (simp add: algebra_simps)
  moreover have "0 \<le> Pt * ((Pc' - Pc) * (b - c))" using assms by simp
  ultimately have "(1 - Pc') * Pt * b + Pc' * Pt * c \<le> (1 - Pc) * Pt * b + Pc * Pt * c"
    by linarith
  then have "Pb * ((1 - Pc') * Pt * b + Pc' * Pt * c) \<le> Pb * ((1 - Pc) * Pt * b + Pc * Pt * c)"
    using assms(1) by (rule mult_left_mono)
  then show ?thesis by simp
qed

text \<open>
  Claim C1, as the code has it: for every input \<open>(Pb, Pt, b)\<close> whose
  \<open>1 + Pb * Pt * b\<close> is not zero, \<open>calculate_no_prediction\<close> returns
  \<open>cpi = 1 + Pb * Pt * b\<close> and \<open>throughput = 1 / cpi\<close>; at
  \<open>(0.25, 0.6, 4)\<close> it returns \<open>cpi = 1.6\<close> and \<open>throughput = 0.625\<close>.
\<close>

theorem no_prediction_contract:
  "(1 + Pb * Pt * b \<noteq> 0 \<longrightarrow>
      calculate_no_prediction Pb Pt b = Inr (1 + Pb * Pt * b, 1 / (1 + Pb * Pt * b))) \<and>
   calculate_no_prediction (25 / 100) (6 / 10) 4 = Inr (16 / 10, 625 / 1000)"
  by (simp add: calculate_no_prediction_def Let_def)

theorem no_prediction_contract_witness:
  "1 + (1 / 2) * (1 / 2) * 4 \<noteq> (0::real) \<and>
   calculate_no_prediction (1 / 2) (1 / 2) 4 = Inr (2, 1 / 2)"
  using no_prediction_contract [of "1 / 2" "1 / 2" 4] by simp

text \<open>
  Claim C1 as it is written says "for every input"; at \<open>(-1, 1, 1)\<close> the value
  \<open>cpi\<close> is zero, the division raises and nothing is returned.
\<close>

theorem no_prediction_every_input_counterexample:
  "1 + (- 1) * 1 * 1 = (0::real) \<and>
   calculate_no_prediction (- 1) 1 1 = Inl ZeroDivisionError \<and>
   (\<forall>cpi throughput. calculate_no_prediction (- 1) 1 1 \<noteq> Inr (cpi, throughput))"
  by (simp add: calculate_no_prediction_def Let_def)

text \<open>
  Claim C2, as the code has it: for every input \<open>(Pb, Pt, b, Pc, c)\<close> whose
  \<open>1 + Pb * ((1 - Pc) * Pt * b + Pc * Pt * c)\<close> is not zero,
  \<open>calculate_with_prediction\<close> returns that value as \<open>cpi\<close> and
  \<open>throughput = 1 / cpi\<close>; at \<open>(0.25, 0.6, 4, 0.5, 1)\<close> it returns
  \<open>cpi = 1.375\<close> and a throughput of \<open>8 / 11\<close>, which is \<open>0.7273\<close> to four places.
\<close>

theorem with_prediction_contract:
  "(1 + Pb * ((1 - Pc) * Pt * b + Pc * Pt * c) \<noteq> 0 \<longrightarrow>
      calculate_with_prediction Pb Pt b Pc c =
        Inr (1 + Pb * ((1 - Pc) * Pt * b + Pc * Pt * c),
             1 / (1 + Pb * ((1 - Pc) * Pt * b + Pc * Pt * c)))) \<and>
   calculate_with_prediction (25 / 100) (6 / 10) 4 (5 / 10) 1 = Inr (1375 / 1000, 8 / 11) \<and>
   \<bar>8 / 11 - 7273 / 10000\<bar> < (1 / 10000 :: real)"
  by (simp add: calculate_with_prediction_def Let_def)

theorem with_prediction_contract_witness:
  "1 + (1 / 2) * ((1 - 1 / 2) * (1 / 2) * 4 + (1 / 2) * (1 / 2) * 0) \<noteq> (0::real) \<and>
   calculate_with_prediction (1 / 2) (1 / 2) 4 (1 / 2) 0 = Inr (3 / 2, 2 / 3)"
  using with_prediction_contract [of "1 / 2" "1 / 2" "1 / 2" 4 0] by simp

text \<open>
  Claim C2 as it is written says "for every input"; at \<open>(1, 1, 1, 2, 0)\<close> the value
  \<open>cpi\<close> is zero, the division raises and nothing is returned.
\<close>

theorem with_prediction_every_input_counterexample:
  "1 + 1 * ((1 - 2) * 1 * 1 + 2 * 1 * 0) = (0::real) \<and>
   calculate_with_prediction 1 1 1 2 0 = Inl ZeroDivisionError \<and>
   (\<forall>cpi throughput. calculate_with_prediction 1 1 1 2 0 \<noteq> Inr (cpi, throughput))"
  by (simp add: calculate_with_prediction_def Let_def)

text \<open>
  Claim C4: every result that either model function returns has
  \<open>throughput = 1 / cpi\<close>; and for inputs in the expected domain (\<open>Pb\<close>, \<open>Pt\<close>,
  \<open>Pc\<close> in \<open>[0, 1]\<close>, \<open>b\<close> and \<open>c\<close> not negative) the function does return,
  with \<open>cpi \<ge> 1\<close> and \<open>throughput > 0\<close>.
\<close>

theorem model_result_invariant:
  "(calculate_no_prediction Pb Pt b = Inr (cpi, thr) \<longrightarrow> thr = 1 / cpi) \<and>
   (calculate_with_prediction Pb Pt b Pc c = Inr (cpi', thr') \<longrightarrow> thr' = 1 / cpi') \<and>
   (0 \<le> Pb \<and> Pb \<le> 1 \<and> 0 \<le> Pt \<and> Pt \<le> 1 \<and> 0 \<le> b \<longrightarrow>
      (\<exists>k t. calculate_no_prediction Pb Pt b = Inr (k, t) \<and> 1 \<le> k \<and> 0 < t \<and> t = 1 / k)) \<and>
   (0 \<le> Pb \<and> Pb \<le> 1 \<and> 0 \<le> Pt \<and> Pt \<le> 1 \<and> 0 \<le> Pc \<and> Pc \<le> 1 \<and> 0 \<le> b \<and> 0 \<le> c \<longrightarrow>
      (\<exists>k t. calculate_with_prediction Pb Pt b Pc c = Inr (k, t) \<and> 1 \<le> k \<and> 0 < t \<and> t = 1 / k))"
proof (intro conjI impI)
  show "calculate_no_prediction Pb Pt b = Inr (cpi, thr) \<Longrightarrow> thr = 1 / cpi"
    by (auto simp: calculate_no_prediction_def Let_def split: if_splits)
  show "calculate_with_prediction Pb Pt b Pc c = Inr (cpi', thr') \<Longrightarrow> thr' = 1 / cpi'"
    by (auto simp: calculate_with_prediction_def Let_def split: if_splits)
next
  assume d: "0 \<le> Pb \<and> Pb \<le> 1 \<and> 0 \<le> Pt \<and> Pt \<le> 1 \<and> 0 \<le> b"
  then have "0 \<le> Pb * Pt * b" by simp
  then have k: "1 \<le> 1 + Pb * Pt * b" by simp
  then have "calculate_no_prediction Pb Pt b = Inr (1 + Pb * Pt * b, 1 / (1 + Pb * Pt * b))"
    by (intro calculate_no_prediction_Inr) linarith
  moreover have "0 < 1 / (1 + Pb * Pt * b)" using k by simp
  ultimately show "\<exists>k t. calculate_no_prediction Pb Pt b = Inr (k, t) \<and> 1 \<le> k \<and> 0 < t \<and> t = 1 / k"
    using k by blast
next
  assume d: "0 \<le> Pb \<and> Pb \<le> 1 \<and> 0 \<le> Pt \<and> Pt \<le> 1 \<and> 0 \<le> Pc \<and> Pc \<le> 1 \<and> 0 \<le> b \<and> 0 \<le> c"
  let ?k = "1 + Pb * ((1 - Pc) * Pt * b + Pc * Pt * c)"
  have k: "1 \<le> ?k" using d by (intro cpi_with_prediction_ge_1_domain) simp_all
  then have "calculate_with_prediction Pb Pt b Pc c = Inr (?k, 1 / ?k)"
    by (intro calculate_with_prediction_Inr) linarith
  moreover have "0 < 1 / ?k" using k by simp
  ultimately show "\<exists>k t. calculate_with_prediction Pb Pt b Pc c = Inr (k, t) \<and> 1 \<le> k \<and> 0 < t \<and> t = 1 / k"
    using k by blast
qed

theorem model_result_invariant_witness:
  "calculate_no_prediction (1 / 2) (1 / 2) 4 = Inr (2, 1 / 2) \<and> (1 / 2 :: real) = 1 / 2 \<and>
   calculate_with_prediction (1 / 2) (1 / 2) 4 (1 / 2) 0 = Inr (3 / 2, 2 / 3) \<and>
   (2 / 3 :: real) = 1 / (3 / 2) \<and>
   (0 \<le> (1 / 2 :: real) \<and> (1 / 2 :: real) \<le> 1 \<and> (0::real) \<le> 4 \<and> (0::real) \<le> 0) \<and>
   (\<exists>k t. calculate_no_prediction (1 / 2) (1 / 2) 4 = Inr (k, t) \<and> 1 \<le> k \<and> 0 < t \<and> t = 1 / k) \<and>
   (\<exists>k t. calculate_with_prediction (1 / 2) (1 / 2) 4 (1 / 2) 0 = Inr (k, t) \<and>
           1 \<le> k \<and> 0 < t \<and> t = 1 / k)"
  using model_result_invariant [of "1 / 2" "1 / 2" 4 2 "1 / 2" "1 / 2" 0 "3 / 2" "2 / 3"]
  by (simp add: calculate_no_prediction_def calculate_with_prediction_def Let_def)

text \<open>
  Claim C5: perfect prediction (\<open>Pc = 1\<close>) gives the no-prediction result with penalty
  \<open>c\<close>, and \<open>Pc = 0\<close> gives the no-prediction result with penalty \<open>b\<close>. The two
  functions agree as they are written, through the one formula and with no special case,
  on every input, also where both raise.
\<close>

theorem with_prediction_reduces_to_no_prediction:
  "calculate_with_prediction Pb Pt b 1 c = calculate_no_prediction Pb Pt c \<and>
   calculate_with_prediction Pb Pt b 0 c = calculate_no_prediction Pb Pt b"
  by (simp add: calculate_with_prediction_def calculate_no_prediction_def Let_def mult.assoc)

text \<open>
  Claim C10, as the code has it: for \<open>Pb \<ge> 0\<close>, \<open>Pt \<ge> 0\<close> and
  \<open>0 \<le> c \<le> b\<close>, of two accuracies \<open>Pc \<le> Pc'\<close> the larger never has the larger
  \<open>cpi\<close>; and as long as \<open>Pc' \<le> 1\<close> both calls return and the larger accuracy
  never has the smaller throughput.
\<close>

theorem prediction_accuracy_monotone:
  assumes "0 \<le> Pb" "0 \<le> Pt" "0 \<le> c" "c \<le> b" "Pc \<le> Pc'"
  shows "(\<forall>cpi thr cpi' thr'.
            calculate_with_prediction Pb Pt b Pc c = Inr (cpi, thr) \<and>
            calculate_with_prediction Pb Pt b Pc' c = Inr (cpi', thr') \<longrightarrow> cpi' \<le> cpi) \<and>
         (Pc' \<le> 1 \<longrightarrow>
            (\<exists>cpi thr cpi' thr'.
               calculate_with_prediction Pb Pt b Pc c = Inr (cpi, thr) \<and>
               calculate_with_prediction Pb Pt b Pc' c = Inr (cpi', thr') \<and>
               cpi' \<le> cpi \<and> thr \<le> thr'))"
proof (intro conjI allI impI)
  fix cpi thr cpi' thr'
  assume "calculate_with_prediction Pb Pt b Pc c = Inr (cpi, thr) \<and>
            calculate_with_prediction Pb Pt b Pc' c = Inr (cpi', thr')"
  then have "cpi = 1 + Pb * ((1 - Pc) * Pt * b + Pc * Pt * c)"
    and "cpi' = 1 + Pb * ((1 - Pc') * Pt * b + Pc' * Pt * c)"
    by (auto simp: calculate_with_prediction_def Let_def split: if_splits)
  then show "cpi' \<le> cpi" using cpi_with_prediction_antimono [OF assms(1,2,4,5)] by simp
next
  assume le1: "Pc' \<le> 1"
  let ?k = "1 + Pb * ((1 - Pc) * Pt * b + Pc * Pt * c)"
  let ?k' = "1 + Pb * ((1 - Pc') * Pt * b + Pc' * Pt * c)"
  have k': "1 \<le> ?k'" using assms le1 by (intro cpi_with_prediction_ge_1) simp_all
  have kk: "?k' \<le> ?k" by (rule cpi_with_prediction_antimono [OF assms(1,2,4,5)])
  have k: "1 \<le> ?k" using k' kk by linarith
  have r: "calculate_with_prediction Pb Pt b Pc c = Inr (?k, 1 / ?k)"
    using k by (intro calculate_with_prediction_Inr) linarith
  have r': "calculate_with_prediction Pb Pt b Pc' c = Inr (?k', 1 / ?k')"
    using k' by (intro calculate_with_prediction_Inr) linarith
  have "1 / ?k \<le> 1 / ?k'" using k' kk by (intro divide_left_mono) (auto intro: mult_pos_pos)
  then show "\<exists>cpi thr cpi' thr'.
               calculate_with_prediction Pb Pt b Pc c = Inr (cpi, thr) \<and>
               calculate_with_prediction Pb Pt b Pc' c = Inr (cpi', thr') \<and>
               cpi' \<le> cpi \<and> thr \<le> thr'"
    using r r' kk by blast
qed

theorem prediction_accuracy_monotone_witness:
  "((0::real) \<le> 1 / 4 \<and> (0::real) \<le> 6 / 10 \<and> (0::real) \<le> 1 \<and> (1::real) \<le> 4 \<and>
    (1 / 2 :: real) \<le> 1 \<and> (1::real) \<le> 1) \<and>
   (\<exists>cpi thr cpi' thr'.
      calculate_with_prediction (1 / 4) (6 / 10) 4 (1 / 2) 1 = Inr (cpi, thr) \<and>
      calculate_with_prediction (1 / 4) (6 / 10) 4 1 1 = Inr (cpi', thr') \<and>
      cpi' \<le> cpi \<and> thr \<le> thr')"
  using prediction_accuracy_monotone [of "1 / 4" "6 / 10" 1 4 "1 / 2" 1] by simp

text \<open>
  Claim C10 as it is written bounds neither accuracy. With the constants of part B
  (\<open>Pb = 0.25\<close>, \<open>Pt = 0.6\<close>, \<open>b = 4\<close>) and \<open>c = 0\<close>, raising \<open>Pc\<close> from
  \<open>2.6\<close> to \<open>2.7\<close> takes \<open>cpi\<close> through zero and the throughput from \<open>25\<close> down
  to \<open>-50\<close>.
\<close>

theorem prediction_accuracy_throughput_counterexample:
  "(0::real) \<le> 25 / 100 \<and> (0::real) \<le> 6 / 10 \<and> (0::real) \<le> 0 \<and> (0::real) \<le> 4 \<and>
   (26 / 10 :: real) \<le> 27 / 10 \<and>
   calculate_with_prediction (25 / 100) (6 / 10) 4 (26 / 10) 0 = Inr (4 / 100, 25) \<and>
   calculate_with_prediction (25 / 100) (6 / 10) 4 (27 / 10) 0 = Inr (- (2 / 100), - 50) \<and>
   \<not> ((25::real) \<le> - 50)"
  by (simp add: calculate_with_prediction_def Let_def)

section \<open>The swept axes: contents and failures\<close>

subsection \<open>Truncation and rounding\<close>



lemma py_round_grid: "py_round (of_int m / 10 ^ n) n = of_int m / 10 ^ n"
  by (simp add: py_round_def Let_def)











subsection \<open>What the axes contain and when they fail\<close>






section \<open>The sweeps\<close>

subsection \<open>Lists made of blocks of one length\<close>




subsection \<open>The table loops in closed form\<close>

text \<open>
  Each loop either appends the rows of all its iterations, in order, or stops at the first
  model call that raises.
\<close>

lemma table_a_Pb_loop_closed:
  "table_a_Pb_loop b Pt Pbs data =
     (if \<forall>Pb\<in>set Pbs. 1 + Pb * Pt * b \<noteq> 0
      then Inr (data @ map (row_a_of b Pt) Pbs) else Inl ZeroDivisionError)"
proof (induction Pbs arbitrary: data)
  case Nil
  then show ?case by simp
next
  case (Cons Pb Pbs)
  show ?case
  proof (cases "1 + Pb * Pt * b = 0")
    case True
    then show ?thesis by (simp add: calculate_no_prediction_Inl)
  next
    case False
    then show ?thesis
      by (simp add: calculate_no_prediction_Inr Cons.IH row_a_of_def)
  qed
qed

lemma table_a_Pt_loop_closed:
  "table_a_Pt_loop b Pts Pbs data =
     (if \<forall>Pt\<in>set Pts. \<forall>Pb\<in>set Pbs. 1 + Pb * Pt * b \<noteq> 0
      then Inr (data @ concat (map (\<lambda>Pt. map (row_a_of b Pt) Pbs) Pts))
      else Inl ZeroDivisionError)"
proof (induction Pts arbitrary: data)
  case Nil
  then show ?case by simp
next
  case (Cons Pt Pts)
  show ?case
  proof (cases "\<forall>Pb\<in>set Pbs. 1 + Pb * Pt * b \<noteq> 0")
    case True
    then show ?thesis by (simp add: table_a_Pb_loop_closed Cons.IH)
  next
    case False
    then show ?thesis by (auto simp: table_a_Pb_loop_closed)
  qed
qed

lemma table_a_b_loop_closed:
  "table_a_b_loop bs Pts Pbs data =
     (if \<forall>b\<in>set bs. \<forall>Pt\<in>set Pts. \<forall>Pb\<in>set Pbs. 1 + Pb * Pt * b \<noteq> 0
      then Inr (data @ concat (map (\<lambda>b. concat (map (\<lambda>Pt. map (row_a_of b Pt) Pbs) Pts)) bs))
      else Inl ZeroDivisionError)"
proof (induction bs arbitrary: data)
  case Nil
  then show ?case by simp
next
  case (Cons b bs)
  show ?case
  proof (cases "\<forall>Pt\<in>set Pts. \<forall>Pb\<in>set Pbs. 1 + Pb * Pt * b \<noteq> 0")
    case True
    then show ?thesis by (simp add: table_a_Pt_loop_closed Cons.IH)
  next
    case False
    then show ?thesis by (auto simp: table_a_Pt_loop_closed)
  qed
qed

lemma table_b_Pc_loop_closed:
  "table_b_Pc_loop c Pcs data =
     (if \<forall>Pc\<in>set Pcs. cpi_b c Pc \<noteq> 0
      then Inr (data @ map (row_b_of c) Pcs) else Inl ZeroDivisionError)"
proof (induction Pcs arbitrary: data)
  case Nil
  then show ?case by simp
next
  case (Cons Pc Pcs)
  show ?case
  proof (cases "cpi_b c Pc = 0")
    case True
    then have "calculate_with_prediction (25 / 100) (6 / 10) 4 Pc c = Inl ZeroDivisionError"
      by (intro calculate_with_prediction_Inl) (simp add: cpi_b_def)
    then show ?thesis using True by simp
  next
    case False
    then have "calculate_with_prediction (25 / 100) (6 / 10) 4 Pc c = Inr (cpi_b c Pc, 1 / cpi_b c Pc)"
      unfolding cpi_b_def by (rule calculate_with_prediction_Inr)
    then show ?thesis using False by (simp add: Cons.IH row_b_of_def)
  qed
qed

lemma table_b_c_loop_closed:
  "table_b_c_loop cs Pcs data =
     (if \<forall>c\<in>set cs. \<forall>Pc\<in>set Pcs. cpi_b c Pc \<noteq> 0
      then Inr (data @ concat (map (\<lambda>c. map (row_b_of c) Pcs) cs))
      else Inl ZeroDivisionError)"
proof (induction cs arbitrary: data)
  case Nil
  then show ?case by simp
next
  case (Cons c cs)
  show ?case
  proof (cases "\<forall>Pc\<in>set Pcs. cpi_b c Pc \<noteq> 0")
    case True
    then show ?thesis by (simp add: table_b_Pc_loop_closed Cons.IH)
  next
    case False
    then show ?thesis by (auto simp: table_b_Pc_loop_closed)
  qed
qed

lemma update_table_part_b_closed:
  assumes "Pc_values (pc_min_var g) (pc_max_var g) (pc_res_var g) = Inr Pcs"
  shows "update_table_part_b g all_data =
     (if \<forall>c\<in>set (c_values g all_data). \<forall>Pc\<in>set Pcs. cpi_b c Pc \<noteq> 0
      then Inr (concat (map (\<lambda>c. map (row_b_of c) Pcs) (c_values g all_data)))
      else Inl ZeroDivisionError)"
  using assms by (simp add: update_table_part_b_def table_b_c_loop_closed)

lemma update_table_part_a_closed:
  assumes "Pb_values (pb_min_var g) (pb_max_var g) (pb_res_var g) = Inr Pbs"
    and "Pt_b_values_a g all_data = Inr (Pts, bs)"
  shows "update_table_part_a g all_data =
     (if \<forall>b\<in>set bs. \<forall>Pt\<in>set Pts. \<forall>Pb\<in>set Pbs. 1 + Pb * Pt * b \<noteq> 0
      then Inr (concat (map (\<lambda>b. concat (map (\<lambda>Pt. map (row_a_of b Pt) Pbs) Pts)) bs))
      else Inl ZeroDivisionError)"
  using assms by (simp add: update_table_part_a_def table_a_b_loop_closed)





subsection \<open>The plot loops\<close>

text \<open>
  Every line handed to the plot has the axis list itself as its x coordinates, and the
  unrounded model values as its y coordinates.
\<close>

lemma graph_a_Pt_loop_inv:
  assumes "graph_a_Pt_loop y b Pts Pbs ax = Inr ax'"
    and "\<forall>l\<in>set ax. la_xs l = Pbs \<and>
           (\<exists>vals. values_a (la_Pt l) (la_b l) Pbs = Inr vals \<and> la_ys l = y_values y vals)"
  shows "\<forall>l\<in>set ax'. la_xs l = Pbs \<and>
           (\<exists>vals. values_a (la_Pt l) (la_b l) Pbs = Inr vals \<and> la_ys l = y_values y vals)"
  using assms
proof (induction Pts arbitrary: ax)
  case Nil
  then show ?case by simp
next
  case (Cons Pt Pts)
  from Cons.prems(1) obtain vals where v: "values_a Pt b Pbs = Inr vals"
    and rest: "graph_a_Pt_loop y b Pts Pbs
            (ax @ [\<lparr>la_xs = Pbs, la_ys = y_values y vals, la_Pt = Pt, la_b = b,
                     la_linestyle = (if b = 3 then ''-'' else ''--'')\<rparr>]) = Inr ax'"
    by (auto split: sum.splits)
  show ?case
    by (rule Cons.IH [OF rest]) (use Cons.prems(2) v in auto)
qed

lemma graph_a_b_loop_inv:
  assumes "graph_a_b_loop y bs Pts Pbs ax = Inr ax'"
    and "\<forall>l\<in>set ax. la_xs l = Pbs \<and>
           (\<exists>vals. values_a (la_Pt l) (la_b l) Pbs = Inr vals \<and> la_ys l = y_values y vals)"
  shows "\<forall>l\<in>set ax'. la_xs l = Pbs \<and>
           (\<exists>vals. values_a (la_Pt l) (la_b l) Pbs = Inr vals \<and> la_ys l = y_values y vals)"
  using assms
proof (induction bs arbitrary: ax)
  case Nil
  then show ?case by simp
next
  case (Cons b bs)
  from Cons.prems(1) obtain ax1 where s: "graph_a_Pt_loop y b Pts Pbs ax = Inr ax1"
    and rest: "graph_a_b_loop y bs Pts Pbs ax1 = Inr ax'"
    by (auto split: sum.splits)
  show ?case
    by (rule Cons.IH [OF rest]) (rule graph_a_Pt_loop_inv [OF s Cons.prems(2)])
qed

lemma graph_b_c_loop_inv:
  assumes "graph_b_c_loop y cs Pcs ax = Inr ax'"
    and "\<forall>l\<in>set ax. lb_xs l = Pcs \<and>
           (\<exists>vals. values_b (lb_c l) Pcs = Inr vals \<and> lb_ys l = y_values y vals)"
  shows "\<forall>l\<in>set ax'. lb_xs l = Pcs \<and>
           (\<exists>vals. values_b (lb_c l) Pcs = Inr vals \<and> lb_ys l = y_values y vals)"
  using assms
proof (induction cs arbitrary: ax)
  case Nil
  then show ?case by simp
next
  case (Cons c cs)
  from Cons.prems(1) obtain vals where v: "values_b c Pcs = Inr vals"
    and rest: "graph_b_c_loop y cs Pcs
            (ax @ [\<lparr>lb_xs = Pcs, lb_ys = y_values y vals, lb_c = c\<rparr>]) = Inr ax'"
    by (auto split: sum.splits)
  show ?case
    by (rule Cons.IH [OF rest]) (use Cons.prems(2) v in auto)
qed

lemma update_graph_part_a_lines:
  assumes "update_graph_part_a g all_data = Inr lines" "l \<in> set lines"
  shows "Pb_values (pb_min_var g) (pb_max_var g) (pb_res_var g) = Inr (la_xs l) \<and>
         (\<exists>vals. values_a (la_Pt l) (la_b l) (la_xs l) = Inr vals \<and>
                 la_ys l = y_values (y_axis_var_a g) vals)"
proof -
  from assms(1) obtain Pbs Pts bs where
    p: "Pb_values (pb_min_var g) (pb_max_var g) (pb_res_var g) = Inr Pbs"
    and loop: "graph_a_b_loop (y_axis_var_a g) bs Pts Pbs [] = Inr lines"
    by (auto simp: update_graph_part_a_def split: sum.splits)
  have "\<forall>l\<in>set lines. la_xs l = Pbs \<and>
           (\<exists>vals. values_a (la_Pt l) (la_b l) Pbs = Inr vals \<and>
                   la_ys l = y_values (y_axis_var_a g) vals)"
    by (rule graph_a_b_loop_inv [OF loop]) simp
  then show ?thesis using assms(2) p by auto
qed

lemma update_graph_part_b_lines:
  assumes "update_graph_part_b g all_data = Inr lines" "l \<in> set lines"
  shows "Pc_values (pc_min_var g) (pc_max_var g) (pc_res_var g) = Inr (lb_xs l) \<and>
         (\<exists>vals. values_b (lb_c l) (lb_xs l) = Inr vals \<and>
                 lb_ys l = y_values (y_axis_var_b g) vals)"
proof -
  from assms(1) obtain Pcs where
    p: "Pc_values (pc_min_var g) (pc_max_var g) (pc_res_var g) = Inr Pcs"
    and loop: "graph_b_c_loop (y_axis_var_b g) (c_values g all_data) Pcs [] = Inr lines"
    by (auto simp: update_graph_part_b_def split: sum.splits)
  have "\<forall>l\<in>set lines. lb_xs l = Pcs \<and>
           (\<exists>vals. values_b (lb_c l) Pcs = Inr vals \<and>
                   lb_ys l = y_values (y_axis_var_b g) vals)"
    by (rule graph_b_c_loop_inv [OF loop]) simp
  then show ?thesis using assms(2) p by auto
qed

subsection \<open>The rows of a table\<close>

lemma update_table_part_a_rows:
  assumes "update_table_part_a g all_data = Inr rows" "r \<in> set rows"
  shows "\<exists>Pts bs. Pt_b_values_a g all_data = Inr (Pts, bs) \<and>
           (\<exists>b\<in>set bs. \<exists>Pt\<in>set Pts. \<exists>cpi thr.
              calculate_no_prediction (a_Pb r) Pt b = Inr (cpi, thr) \<and>
              a_b r = b \<and> a_Pt r = py_round Pt 3 \<and>
              a_CPI r = py_round cpi 3 \<and> a_Throughput r = py_round thr 3)"
proof -
  from assms(1) obtain Pbs Pts bs where
    p: "Pb_values (pb_min_var g) (pb_max_var g) (pb_res_var g) = Inr Pbs"
    and q: "Pt_b_values_a g all_data = Inr (Pts, bs)"
    by (auto simp: update_table_part_a_def split: sum.splits)
  have nz: "\<forall>b\<in>set bs. \<forall>Pt\<in>set Pts. \<forall>Pb\<in>set Pbs. 1 + Pb * Pt * b \<noteq> 0"
    and rows: "rows = concat (map (\<lambda>b. concat (map (\<lambda>Pt. map (row_a_of b Pt) Pbs) Pts)) bs)"
    using assms(1) update_table_part_a_closed [OF p q] by (auto split: if_splits)
  from assms(2) rows obtain b Pt Pb where
    m: "b \<in> set bs" "Pt \<in> set Pts" "Pb \<in> set Pbs" and r: "r = row_a_of b Pt Pb"
    by auto
  have "calculate_no_prediction Pb Pt b = Inr (1 + Pb * Pt * b, 1 / (1 + Pb * Pt * b))"
    using nz m by (intro calculate_no_prediction_Inr) blast
  then show ?thesis using q m r by (auto simp: row_a_of_def)
qed

lemma update_table_part_b_rows:
  assumes "update_table_part_b g all_data = Inr rows" "r \<in> set rows"
  shows "b_c r \<in> set (c_values g all_data) \<and>
         (\<exists>cpi thr.
            calculate_with_prediction (25 / 100) (6 / 10) 4 (b_Pc r) (b_c r) = Inr (cpi, thr) \<and>
            b_CPI r = py_round cpi 3 \<and> b_Throughput r = py_round thr 3)"
proof -
  from assms(1) obtain Pcs where
    p: "Pc_values (pc_min_var g) (pc_max_var g) (pc_res_var g) = Inr Pcs"
    by (auto simp: update_table_part_b_def split: sum.splits)
  have nz: "\<forall>c\<in>set (c_values g all_data). \<forall>Pc\<in>set Pcs. cpi_b c Pc \<noteq> 0"
    and rows: "rows = concat (map (\<lambda>c. map (row_b_of c) Pcs) (c_values g all_data))"
    using assms(1) update_table_part_b_closed [OF p] by (auto split: if_splits)
  from assms(2) rows obtain c Pc where
    m: "c \<in> set (c_values g all_data)" "Pc \<in> set Pcs" and r: "r = row_b_of c Pc"
    by auto
  have "cpi_b c Pc \<noteq> 0" using nz m by blast
  then have "calculate_with_prediction (25 / 100) (6 / 10) 4 Pc c = Inr (cpi_b c Pc, 1 / cpi_b c Pc)"
    unfolding cpi_b_def by (rule calculate_with_prediction_Inr)
  then show ?thesis using m r by (auto simp: row_b_of_def)
qed

lemmas axis_eval = Pb_values_def Pt_values_def Pc_values_def py_int_def py_round_def Let_def upt_rec

lemmas model_eval = calculate_no_prediction_def calculate_with_prediction_def y_values_def

subsection \<open>Size and order of the tables\<close>



subsection \<open>Rounding in the table, none in the plot\<close>

text \<open>
  Claim C9: in every row of either table the \<open>CPI\<close> and \<open>Throughput\<close> fields are
  the two values the model function returns for that row's inputs, each rounded to 3
  decimals; and every line of either plot is drawn over the axis list exactly as it was
  generated (\<open>Pb_values\<close>, \<open>Pc_values\<close>), with the unrounded model values as its
  ordinates.
\<close>

theorem table_rounding_and_plot_coordinates:
  "(update_table_part_a g all_data = Inr rows \<and> r \<in> set rows \<longrightarrow>
      (\<exists>Pts bs. Pt_b_values_a g all_data = Inr (Pts, bs) \<and>
         (\<exists>b\<in>set bs. \<exists>Pt\<in>set Pts. \<exists>cpi thr.
            calculate_no_prediction (a_Pb r) Pt b = Inr (cpi, thr) \<and>
            a_b r = b \<and> a_Pt r = py_round Pt 3 \<and>
            a_CPI r = py_round cpi 3 \<and> a_Throughput r = py_round thr 3))) \<and>
   (update_table_part_b g all_data = Inr rows' \<and> r' \<in> set rows' \<longrightarrow>
      b_c r' \<in> set (c_values g all_data) \<and>
      (\<exists>cpi thr.
         calculate_with_prediction (25 / 100) (6 / 10) 4 (b_Pc r') (b_c r') = Inr (cpi, thr) \<and>
         b_CPI r' = py_round cpi 3 \<and> b_Throughput r' = py_round thr 3)) \<and>
   (update_graph_part_a g all_data = Inr lines \<and> l \<in> set lines \<longrightarrow>
      Pb_values (pb_min_var g) (pb_max_var g) (pb_res_var g) = Inr (la_xs l) \<and>
      (\<exists>vals. values_a (la_Pt l) (la_b l) (la_xs l) = Inr vals \<and>
              la_ys l = y_values (y_axis_var_a g) vals)) \<and>
   (update_graph_part_b g all_data = Inr lines' \<and> l' \<in> set lines' \<longrightarrow>
      Pc_values (pc_min_var g) (pc_max_var g) (pc_res_var g) = Inr (lb_xs l') \<and>
      (\<exists>vals. values_b (lb_c l') (lb_xs l') = Inr vals \<and>
              lb_ys l' = y_values (y_axis_var_b g) vals))"
  using update_table_part_a_rows [of g all_data rows r]
    update_table_part_b_rows [of g all_data rows' r']
    update_graph_part_a_lines [of g all_data lines l]
    update_graph_part_b_lines [of g all_data lines' l']
  by blast

theorem table_rounding_and_plot_coordinates_witness:
  "(\<exists>rows r. update_table_part_a (initial_gui\<lparr>pb_res_var := 1 / 10\<rparr>) False = Inr rows \<and>
      r \<in> set rows \<and> a_Pb r = 3 / 10 \<and> a_CPI r = 1540 / 1000 \<and> a_Throughput r = 649 / 1000 \<and>
      (\<exists>cpi thr. calculate_no_prediction (a_Pb r) (6 / 10) 3 = Inr (cpi, thr) \<and>
         a_CPI r = py_round cpi 3 \<and> a_Throughput r = py_round thr 3)) \<and>
   (\<exists>rows r. update_table_part_b (initial_gui\<lparr>pb_res_var := 1 / 10\<rparr>) False = Inr rows \<and>
      r \<in> set rows \<and> b_Pc r = 5 / 10 \<and> b_CPI r = 1375 / 1000 \<and> b_Throughput r = 727 / 1000 \<and>
      (\<exists>cpi thr. calculate_with_prediction (25 / 100) (6 / 10) 4 (b_Pc r) (b_c r) = Inr (cpi, thr) \<and>
         b_CPI r = py_round cpi 3 \<and> b_Throughput r = py_round thr 3)) \<and>
   (\<exists>lines l. update_graph_part_a (initial_gui\<lparr>pb_res_var := 1 / 10\<rparr>) False = Inr lines \<and>
      l \<in> set lines \<and> la_xs l = [2 / 10, 3 / 10] \<and> la_ys l = [25 / 34, 50 / 77] \<and>
      Pb_values (2 / 10) (3 / 10) (1 / 10) = Inr (la_xs l)) \<and>
   (\<exists>lines l. update_graph_part_b (initial_gui\<lparr>pb_res_var := 1 / 10\<rparr>) False = Inr lines \<and>
      l \<in> set lines \<and> lb_xs l = [4 / 10, 5 / 10, 6 / 10, 7 / 10, 8 / 10] \<and>
      Pc_values (4 / 10) (8 / 10) (1 / 10) = Inr (lb_xs l))"
proof -
  let ?g = "initial_gui\<lparr>pb_res_var := 1 / 10\<rparr>"
  let ?r = "\<lparr>a_Pb = 3 / 10, a_Pt = 6 / 10, a_b = 3, a_CPI = 1540 / 1000,
             a_Throughput = 649 / 1000\<rparr>"
  let ?rows = "[\<lparr>a_Pb = 2 / 10, a_Pt = 6 / 10, a_b = 3, a_CPI = 1360 / 1000,
                  a_Throughput = 735 / 1000\<rparr>, ?r]"
  let ?r' = "\<lparr>b_Pc = 5 / 10, b_Pt = 6 / 10, b_b = 4, b_c = 1, b_CPI = 1375 / 1000,
              b_Throughput = 727 / 1000\<rparr>"
  let ?rows' = "[\<lparr>b_Pc = 4 / 10, b_Pt = 6 / 10, b_b = 4, b_c = 1, b_CPI = 1420 / 1000,
                   b_Throughput = 704 / 1000\<rparr>, ?r',
                 \<lparr>b_Pc = 6 / 10, b_Pt = 6 / 10, b_b = 4, b_c = 1, b_CPI = 1330 / 1000,
                   b_Throughput = 752 / 1000\<rparr>,
                 \<lparr>b_Pc = 7 / 10, b_Pt = 6 / 10, b_b = 4, b_c = 1, b_CPI = 1285 / 1000,
                   b_Throughput = 778 / 1000\<rparr>,
                 \<lparr>b_Pc = 8 / 10, b_Pt = 6 / 10, b_b = 4, b_c = 1, b_CPI = 1240 / 1000,
                   b_Throughput = 806 / 1000\<rparr>]"
  let ?l = "\<lparr>la_xs = [2 / 10, 3 / 10], la_ys = [25 / 34, 50 / 77], la_Pt = 6 / 10, la_b = 3,
             la_linestyle = ''-''\<rparr>"
  let ?l' = "\<lparr>lb_xs = [4 / 10, 5 / 10, 6 / 10, 7 / 10, 8 / 10],
              lb_ys = [50 / 71, 8 / 11, 100 / 133, 200 / 257, 25 / 31], lb_c = 1\<rparr>"
  note t = table_rounding_and_plot_coordinates [of ?g False ?rows ?r ?rows' ?r' "[?l]" ?l "[?l']" ?l']
  have e1: "update_table_part_a ?g False = Inr ?rows"
    by (simp add: update_table_part_a_def Pt_b_values_a_def initial_gui_def axis_eval model_eval)
  have e2: "update_table_part_b ?g False = Inr ?rows'"
    by (simp add: update_table_part_b_def c_values_def initial_gui_def axis_eval model_eval)
  have e3: "update_graph_part_a ?g False = Inr [?l]"
    by (simp add: update_graph_part_a_def Pt_b_values_a_def initial_gui_def axis_eval model_eval)
  have e4: "update_graph_part_b ?g False = Inr [?l']"
    by (simp add: update_graph_part_b_def c_values_def initial_gui_def axis_eval model_eval)
  have m: "?r \<in> set ?rows" "?r' \<in> set ?rows'" "?l \<in> set [?l]" "?l' \<in> set [?l']"
    by simp_all
  from t e1 m(1) have c1: "\<exists>Pts bs. Pt_b_values_a ?g False = Inr (Pts, bs) \<and>
         (\<exists>b\<in>set bs. \<exists>Pt\<in>set Pts. \<exists>cpi thr.
            calculate_no_prediction (a_Pb ?r) Pt b = Inr (cpi, thr) \<and>
            a_b ?r = b \<and> a_Pt ?r = py_round Pt 3 \<and>
            a_CPI ?r = py_round cpi 3 \<and> a_Throughput ?r = py_round thr 3)"
    by blast
  have "Pt_b_values_a ?g False = Inr ([6 / 10], [3])"
    by (simp add: Pt_b_values_a_def initial_gui_def)
  with c1 have c1': "\<exists>cpi thr. calculate_no_prediction (a_Pb ?r) (6 / 10) 3 = Inr (cpi, thr) \<and>
         a_CPI ?r = py_round cpi 3 \<and> a_Throughput ?r = py_round thr 3"
    by auto
  from t e2 m(2) have c2: "\<exists>cpi thr.
         calculate_with_prediction (25 / 100) (6 / 10) 4 (b_Pc ?r') (b_c ?r') = Inr (cpi, thr) \<and>
         b_CPI ?r' = py_round cpi 3 \<and> b_Throughput ?r' = py_round thr 3"
    by blast
  from t e3 m(3) have c3: "Pb_values (pb_min_var ?g) (pb_max_var ?g) (pb_res_var ?g) = Inr (la_xs ?l)"
    by blast
  from t e4 m(4) have c4: "Pc_values (pc_min_var ?g) (pc_max_var ?g) (pc_res_var ?g) = Inr (lb_xs ?l')"
    by blast
  have A: "\<exists>rows r. update_table_part_a ?g False = Inr rows \<and>
      r \<in> set rows \<and> a_Pb r = 3 / 10 \<and> a_CPI r = 1540 / 1000 \<and> a_Throughput r = 649 / 1000 \<and>
      (\<exists>cpi thr. calculate_no_prediction (a_Pb r) (6 / 10) 3 = Inr (cpi, thr) \<and>
         a_CPI r = py_round cpi 3 \<and> a_Throughput r = py_round thr 3)"
    by (rule exI [of _ ?rows], rule exI [of _ ?r]) (use e1 m(1) c1' in simp)
  have B: "\<exists>rows r. update_table_part_b ?g False = Inr rows \<and>
      r \<in> set rows \<and> b_Pc r = 5 / 10 \<and> b_CPI r = 1375 / 1000 \<and> b_Throughput r = 727 / 1000 \<and>
      (\<exists>cpi thr. calculate_with_prediction (25 / 100) (6 / 10) 4 (b_Pc r) (b_c r) = Inr (cpi, thr) \<and>
         b_CPI r = py_round cpi 3 \<and> b_Throughput r = py_round thr 3)"
    by (rule exI [of _ ?rows'], rule exI [of _ ?r']) (use e2 m(2) c2 in simp)
  have C: "\<exists>lines l. update_graph_part_a ?g False = Inr lines \<and>
      l \<in> set lines \<and> la_xs l = [2 / 10, 3 / 10] \<and> la_ys l = [25 / 34, 50 / 77] \<and>
      Pb_values (2 / 10) (3 / 10) (1 / 10) = Inr (la_xs l)"
    by (rule exI [of _ "[?l]"], rule exI [of _ ?l]) (use e3 c3 in \<open>simp add: initial_gui_def\<close>)
  have D: "\<exists>lines l. update_graph_part_b ?g False = Inr lines \<and>
      l \<in> set lines \<and> lb_xs l = [4 / 10, 5 / 10, 6 / 10, 7 / 10, 8 / 10] \<and>
      Pc_values (4 / 10) (8 / 10) (1 / 10) = Inr (lb_xs l)"
    by (rule exI [of _ "[?l']"], rule exI [of _ ?l']) (use e4 c4 in \<open>simp add: initial_gui_def\<close>)
  from A B C D show ?thesis by blast
qed

subsection \<open>A zero \<open>cpi\<close> reaches the caller\<close>





end
